theory Spec2Isabelle
  imports Main "HOL-Library.Word" "HOL-Library.Signed_Division" "HOL-Library.AList"
begin

section \<open>procmon: a shallow embedding of procmon.c\<close>

text \<open>
  The development follows \<^verbatim>\<open>src/procmon.c\<close>. Each C function keeps its name. Return
  codes are the \<^verbatim>\<open>int\<close> values of the source; the \<^verbatim>\<open>errno.h\<close> constants carry their
  Linux values.
\<close>

subsection \<open>Constants\<close>

definition EOK :: int where [simp]: "EOK = 0"
definition ENOENT :: int where [simp]: "ENOENT = 2"
definition ESRCH :: int where [simp]: "ESRCH = 3"
definition EAGAIN :: int where [simp]: "EAGAIN = 11"
definition EINVAL :: int where [simp]: "EINVAL = 22"
definition SIGKILL :: int where [simp]: "SIGKILL = 9"

subsection \<open>Machine integers and printf conversions\<close>

text \<open>
  \<^verbatim>\<open>int\<close> is 32 bits wide and \<^verbatim>\<open>long\<close> 64 bits (LP64). A value that does not fit is
  reduced to the two's-complement representative of its residue: this is what the
  conversion \<^verbatim>\<open>long\<close> to \<^verbatim>\<open>int\<close> does, and what the usual targets do on signed
  overflow (which ISO C leaves undefined).
\<close>

definition wrap32 :: "int \<Rightarrow> int" where
  "wrap32 x = (x + 2 ^ 31) mod 2 ^ 32 - 2 ^ 31"

definition wrap64 :: "int \<Rightarrow> int" where
  "wrap64 x = (x + 2 ^ 63) mod 2 ^ 64 - 2 ^ 63"

definition digit_char :: "nat \<Rightarrow> char" where
  "digit_char d = ''0123456789'' ! d"

fun dec_digits :: "nat \<Rightarrow> string" where
  "dec_digits n =
     (if n < 10 then [digit_char n] else dec_digits (n div 10) @ [digit_char (n mod 10)])"

declare dec_digits.simps [simp del]

text \<open>The conversions \<^verbatim>\<open>%d\<close> and \<^verbatim>\<open>%ld\<close>, and \<^verbatim>\<open>%02d\<close> (zero padding to width 2).\<close>

definition fmt_d :: "int \<Rightarrow> string" where
  "fmt_d n = (if n < 0 then CHR ''-'' # dec_digits (nat (- n)) else dec_digits (nat n))"

definition fmt_02d :: "int \<Rightarrow> string" where
  "fmt_02d n = replicate (2 - length (fmt_d n)) CHR ''0'' @ fmt_d n"

text \<open>
  \<^verbatim>\<open>snprintf(buf, len, ...)\<close> stores at most \<^verbatim>\<open>len - 1\<close> characters of the formatted
  text; with \<^verbatim>\<open>len = 0\<close> the buffer is left as it was.
\<close>

definition snprintf :: "string \<Rightarrow> nat \<Rightarrow> string \<Rightarrow> string" where
  "snprintf buf len s = (if len = 0 then buf else take (len - 1) s)"

subsection \<open>GetProcessTime\<close>

text \<open>
  \<^verbatim>\<open>static int GetProcessTime( long runtime, char *buf, size_t len )\<close>. The buffer is
  \<open>None\<close> for a NULL pointer and \<open>Some\<close> of its content otherwise; the function returns
  the result code and the buffer. \<^verbatim>\<open>days\<close>, \<^verbatim>\<open>hours\<close>, \<^verbatim>\<open>mins\<close> and \<^verbatim>\<open>secs\<close> are
  \<^verbatim>\<open>int\<close>, so every product such as \<^verbatim>\<open>days * 86400\<close> is computed in 32 bits before it
  is subtracted from the \<^verbatim>\<open>long\<close>.
\<close>

definition GetProcessTime :: "int \<Rightarrow> string option \<Rightarrow> nat \<Rightarrow> int \<times> string option" where
  "GetProcessTime runtime buf len =
     (case buf of
        None \<Rightarrow> (EINVAL, None)
      | Some b \<Rightarrow>
          if runtime < 60 then
            (EOK, Some (snprintf b len (fmt_d runtime @ ''s'')))
          else if runtime < 3600 then
            (let mins = wrap32 (runtime sdiv 60);
                 runtime1 = wrap64 (runtime - wrap32 (mins * 60));
                 secs = wrap32 runtime1
             in (EOK, Some (snprintf b len (fmt_d mins @ ''m'' @ fmt_02d secs @ ''s''))))
          else if runtime < 86400 then
            (let hours = wrap32 (runtime sdiv 3600);
                 runtime1 = wrap64 (runtime - wrap32 (hours * 3600));
                 mins = wrap32 (runtime1 sdiv 60);
                 runtime2 = wrap64 (runtime1 - wrap32 (mins * 60));
                 secs = wrap32 runtime2
             in (EOK, Some (snprintf b len
                   (fmt_d hours @ ''h'' @ fmt_02d mins @ ''m'' @ fmt_02d secs @ ''s''))))
          else
            (let days = wrap32 (runtime sdiv 86400);
                 runtime1 = wrap64 (runtime - wrap32 (days * 86400));
                 hours = wrap32 (runtime1 sdiv 3600);
                 runtime2 = wrap64 (runtime1 - wrap32 (hours * 3600));
                 mins = wrap32 (runtime2 sdiv 60);
                 runtime3 = wrap64 (runtime2 - wrap32 (mins * 60));
                 secs = wrap32 runtime3
             in (EOK, Some (snprintf b len
                   (fmt_d days @ ''d'' @ fmt_02d hours @ ''h'' @ fmt_02d mins @ ''m''
                      @ fmt_02d secs @ ''s'')))))"

text \<open>
  The rendering in the words of the specification: the euclidean decomposition of the
  runtime into days, hours, minutes and seconds, in the shortest of the four forms.
\<close>

definition render_since :: "int \<Rightarrow> string" where
  "render_since r =
     (let d = r div 86400; hh = r mod 86400 div 3600; mm = r mod 3600 div 60; ss = r mod 60
      in if r < 60 then fmt_d ss @ ''s''
         else if r < 3600 then fmt_d mm @ ''m'' @ fmt_02d ss @ ''s''
         else if r < 86400 then fmt_d hh @ ''h'' @ fmt_02d mm @ ''m'' @ fmt_02d ss @ ''s''
         else fmt_d d @ ''d'' @ fmt_02d hh @ ''h'' @ fmt_02d mm @ ''m'' @ fmt_02d ss @ ''s'')"


subsection \<open>Data\<close>

datatype ProcState =
    PROCSTATE_eINIT
  | PROCSTATE_eSTARTED
  | PROCSTATE_eRUNNING
  | PROCSTATE_eTERMINATED
  | PROCSTATE_eWAITING

text \<open>
  \<^verbatim>\<open>LockData\<close>, the header of a lockfile: \<^verbatim>\<open>pid_t pid\<close>, \<^verbatim>\<open>uint32_t terminate\<close>,
  \<^verbatim>\<open>size_t runcount\<close> (64 bits) and \<^verbatim>\<open>time_t starttime\<close>. The field names carry the
  prefix \<open>ld_\<close> because \<^verbatim>\<open>pid\<close> and \<^verbatim>\<open>runcount\<close> are fields of \<^verbatim>\<open>Process\<close> too and
  \<^verbatim>\<open>terminate\<close> is a function of the program.
\<close>

record LockData =
  ld_pid :: int
  ld_terminate :: "32 word"
  ld_runcount :: "64 word"
  ld_starttime :: int

text \<open>
  A \<^verbatim>\<open>Process *\<close> is \<open>None\<close> for NULL and \<open>Some h\<close> for the object in cell \<open>h\<close> of the
  arena \<open>procs\<close>. The program never frees a \<^verbatim>\<open>Process\<close>, so a handle outside the arena
  does not arise; the model treats such a handle as naming no object. The linked lists
  of \<^verbatim>\<open>ProcessNode\<close> are the lists of their \<^verbatim>\<open>pProcess\<close> pointers, in \<^verbatim>\<open>pNext\<close> order.
  A \<^verbatim>\<open>char *\<close> is \<open>None\<close> for NULL. Output to stdout and stderr is not modelled, and
  with it the field \<^verbatim>\<open>verbose\<close>.
\<close>

type_synonym ProcessPtr = "nat option"

record Process =
  id' :: "string option"
  state :: ProcState
  exec :: "string option"
  wait :: int
  restart_delay :: int
  restart_on_parent_death :: bool
  monitored :: bool
  skip :: bool
  pid :: int
  runcount :: "64 word"
  pParents :: "ProcessPtr list"
  pChildren :: "ProcessPtr list"

record ProcmonState =
  pFirst :: "ProcessPtr list"

subsection \<open>The operating system\<close>

text \<open>
  The system calls are not code of the program. They are modelled as follows.
  \<^item> \<open>tmp\<close> is the directory \<^verbatim>\<open>/tmp\<close>: entry names with the content of each file, in
    \<^verbatim>\<open>readdir\<close> order. The path \<^verbatim>\<open>/tmp/procmon.<name>\<close> is modelled by the entry
    \<^verbatim>\<open>procmon.<name>\<close> it names. Every file holds a complete \<^verbatim>\<open>LockData\<close> header and
    the command line after it.
  \<^item> \<open>live\<close> lists the process ids that exist, \<open>pgrp\<close> gives the process group of each
    and \<open>self\<close> is the calling process. All processes belong to the caller's user. A
    process that gets \<^verbatim>\<open>SIGKILL\<close> is gone at once: the time it spends unreaped is not
    modelled.
  \<^item> \<open>clock\<close> counts microseconds; \<^verbatim>\<open>time(NULL)\<close> is \<open>clock div 1000000\<close>.
  \<^item> \<open>env\<close> is what the rest of the system does to the operating system state while the
    calling thread sleeps (a creator racing with \<^verbatim>\<open>open_lockfile\<close>, a child exiting).
  \<^item> \<open>fds\<close> is the descriptor table of the calling process, \<open>errno\<close> its error number.
  \<^item> \<open>garbage\<close> is the content of the stack slot of the uninitialised local
    \<^verbatim>\<open>LockData ldata\<close> of \<^verbatim>\<open>get_pid_from_lockfile\<close>: a call leaves there what it has read,
    and a later call that cannot open its file finds it. What other calls do to the
    slot is not followed.
  \<^item> \<open>overrun\<close> records that \<^verbatim>\<open>sprintf\<close> has written past the end of a path buffer.
    From there on the behaviour of the program is undefined: the model ends the call
    at hand with its failure value, and its further run is not the program's.
  \<^item> \<open>threads\<close> lists the arguments of the monitor threads created so far;
    \<^verbatim>\<open>pthread_create\<close> fails with \<^verbatim>\<open>EAGAIN\<close> once \<open>thread_limit\<close> threads exist.
  \<^item> \<open>events\<close> is the trace of the system calls made, oldest first.
\<close>

record LockFile =
  ldata :: LockData
  trailer :: string

record OS =
  tmp :: "(string \<times> LockFile) list"
  live :: "int list"
  pgrp :: "int \<Rightarrow> int"
  clock :: nat
  next_pid :: int

datatype event =
    Opened string int
  | Slept nat
  | Killed int int int
  | Unlinked string int
  | Forked int
  | Waited int

record World =
  procs :: "Process list"
  os :: OS
  env :: "OS \<Rightarrow> OS"
  fds :: "(int \<times> string) list"
  errno :: int
  self :: int
  garbage :: LockData
  overrun :: bool
  thread_limit :: nat
  threads :: "ProcessPtr list"
  events :: "event list"

definition deref :: "World \<Rightarrow> ProcessPtr \<Rightarrow> Process option" where
  "deref w p = (case p of None \<Rightarrow> None
                | Some h \<Rightarrow> if h < length (procs w) then Some (procs w ! h) else None)"

definition modify :: "ProcessPtr \<Rightarrow> (Process \<Rightarrow> Process) \<Rightarrow> World \<Rightarrow> World" where
  "modify p f w = (case p of None \<Rightarrow> w
                   | Some h \<Rightarrow> w\<lparr>procs := (procs w)[h := f (procs w ! h)]\<rparr>)"

definition log_event :: "event \<Rightarrow> World \<Rightarrow> World" where
  "log_event e w = w\<lparr>events := events w @ [e]\<rparr>"

text \<open>
  \<^verbatim>\<open>sprintf( lockfile, "/tmp/procmon.%s", name )\<close> writes 13 characters, the name and
  the terminating NUL into \<^verbatim>\<open>char lockfile[sz]\<close>, with no check of the length:
  \<open>fits sz name\<close> says that they fit. The buffer has 256 bytes in \<^verbatim>\<open>open_lockfile\<close>,
  \<^verbatim>\<open>create_lockfile\<close> and \<^verbatim>\<open>get_pid_from_lockfile\<close> (names of at most 242 characters
  fit) and 64 bytes in \<^verbatim>\<open>remove_lockfile\<close> (at most 50 characters).
\<close>

definition lockfile :: "string \<Rightarrow> string" where
  "lockfile name = ''procmon.'' @ name"

definition fits :: "nat \<Rightarrow> string \<Rightarrow> bool" where
  "fits sz name = (length name + 14 \<le> sz)"

definition buffer_overrun :: "World \<Rightarrow> World" where
  "buffer_overrun w = w\<lparr>overrun := True\<rparr>"

definition sys_time :: "World \<Rightarrow> int" where
  "sys_time w = int (clock (os w) div 1000000)"

definition sys_usleep :: "nat \<Rightarrow> World \<Rightarrow> World" where
  "sys_usleep us w =
     log_event (Slept us) (w\<lparr>os := env w ((os w)\<lparr>clock := clock (os w) + us\<rparr>)\<rparr>)"

text \<open>\<^verbatim>\<open>sleep\<close> takes an \<^verbatim>\<open>unsigned int\<close>: an \<^verbatim>\<open>int\<close> argument is converted.\<close>

definition sys_sleep :: "int \<Rightarrow> World \<Rightarrow> World" where
  "sys_sleep s w = sys_usleep (nat (s mod 2 ^ 32) * 1000000) w"

definition fresh_fd :: "(int \<times> string) list \<Rightarrow> int" where
  "fresh_fd t = fold max (map fst t) 2 + 1"

text \<open>\<^verbatim>\<open>open(path, O_RDWR)\<close>: the new descriptor, or -1 with \<^verbatim>\<open>errno = ENOENT\<close>.\<close>

definition sys_open :: "string \<Rightarrow> World \<Rightarrow> int \<times> World" where
  "sys_open entry w =
     (case map_of (tmp (os w)) entry of
        None \<Rightarrow> (- 1, log_event (Opened entry (- 1)) (w\<lparr>errno := ENOENT\<rparr>))
      | Some f \<Rightarrow>
          (let fd = fresh_fd (fds w)
           in (fd, log_event (Opened entry fd) (w\<lparr>fds := (fd, entry) # fds w\<rparr>))))"

definition sys_close :: "int \<Rightarrow> World \<Rightarrow> World" where
  "sys_close fd w = w\<lparr>fds := filter (\<lambda>x. fst x \<noteq> fd) (fds w)\<rparr>"

text \<open>
  \<^verbatim>\<open>read(fd, &ldata, sizeof(LockData))\<close> on a freshly opened descriptor: the header, or
  \<open>None\<close> when the call does not deliver \<^verbatim>\<open>sizeof(LockData)\<close> bytes.
\<close>

definition read_ldata :: "int \<Rightarrow> World \<Rightarrow> LockData option" where
  "read_ldata fd w =
     (case map_of (fds w) fd of
        None \<Rightarrow> None
      | Some entry \<Rightarrow> map_option ldata (map_of (tmp (os w)) entry))"

text \<open>
  \<^verbatim>\<open>lseek\<close> to a field of the header followed by \<^verbatim>\<open>write\<close> of that field (or of the whole
  header, from offset 0): the file changes in the fields written only. The result tells
  whether the bytes were written; a bad descriptor gives \<^verbatim>\<open>errno = EBADF\<close>.
\<close>

definition pwrite_ldata :: "int \<Rightarrow> (LockData \<Rightarrow> LockData) \<Rightarrow> World \<Rightarrow> bool \<times> World" where
  "pwrite_ldata fd f w =
     (case map_of (fds w) fd of
        None \<Rightarrow> (False, w\<lparr>errno := 9\<rparr>)
      | Some entry \<Rightarrow>
          (case map_of (tmp (os w)) entry of
             None \<Rightarrow> (True, w)
           | Some lf \<Rightarrow>
               (True, w\<lparr>os := (os w)\<lparr>tmp :=
                  AList.update entry (lf\<lparr>ldata := f (ldata lf)\<rparr>) (tmp (os w))\<rparr>\<rparr>)))"

text \<open>
  \<^verbatim>\<open>kill(pid, sig)\<close> addresses the process \<^verbatim>\<open>pid\<close> when \<^verbatim>\<open>pid\<close> is positive, every
  process of the caller's group when it is 0, every process but process 1 and the
  caller when it is -1, and every process of the group \<^verbatim>\<open>-pid\<close> otherwise. It fails with
  \<^verbatim>\<open>ESRCH\<close> when it addresses no process. Signal 0 only probes; any other signal is
  taken to end the processes addressed (the program sends \<^verbatim>\<open>SIGKILL\<close> only). When the
  caller is among them, the model still returns to it.
\<close>

definition kill_match :: "int \<Rightarrow> World \<Rightarrow> int \<Rightarrow> bool" where
  "kill_match p w q =
     (if 0 < p then q = p
      else if p = 0 then pgrp (os w) q = pgrp (os w) (self w)
      else if p = - 1 then q \<noteq> 1 \<and> q \<noteq> self w
      else pgrp (os w) q = - p)"

definition kill_targets :: "int \<Rightarrow> World \<Rightarrow> int list" where
  "kill_targets p w = filter (kill_match p w) (live (os w))"

definition sys_kill :: "int \<Rightarrow> int \<Rightarrow> World \<Rightarrow> int \<times> World" where
  "sys_kill p sig w =
     (if kill_targets p w \<noteq> [] then
        (0, log_event (Killed p sig 0)
              (if sig = 0 then w
               else w\<lparr>os := (os w)\<lparr>live :=
                      filter (\<lambda>q. \<not> kill_match p w q) (live (os w))\<rparr>\<rparr>))
      else (- 1, log_event (Killed p sig (- 1)) (w\<lparr>errno := ESRCH\<rparr>)))"

definition sys_unlink :: "string \<Rightarrow> World \<Rightarrow> int \<times> World" where
  "sys_unlink entry w =
     (case map_of (tmp (os w)) entry of
        None \<Rightarrow> (- 1, log_event (Unlinked entry (- 1)) (w\<lparr>errno := ENOENT\<rparr>))
      | Some f \<Rightarrow>
          (0, log_event (Unlinked entry 0)
                (w\<lparr>os := (os w)\<lparr>tmp := AList.delete entry (tmp (os w))\<rparr>\<rparr>)))"

text \<open>
  \<^verbatim>\<open>waitpid(pid, &wstatus, 0)\<close> blocks until the process has terminated. The model follows
  the execution in which the call returns: afterwards the process is dead.
\<close>

definition sys_waitpid :: "int \<Rightarrow> World \<Rightarrow> World" where
  "sys_waitpid p w =
     log_event (Waited p) (w\<lparr>os := (os w)\<lparr>live := removeAll p (live (os w))\<rparr>\<rparr>)"

text \<open>
  \<^verbatim>\<open>pthread_create(&pProcess->thread, NULL, &MonitorThread, pProcess)\<close>: the thread is
  recorded with its argument; it runs \<open>MonitorThread\<close> on its own schedule.
\<close>

definition pthread_create :: "ProcessPtr \<Rightarrow> World \<Rightarrow> int \<times> World" where
  "pthread_create arg w =
     (if length (threads w) < thread_limit w then (EOK, w\<lparr>threads := threads w @ [arg]\<rparr>)
      else (EAGAIN, w))"


subsection \<open>Lockfile protocol\<close>

text \<open>
  \<^verbatim>\<open>lock\<close> passes the command to \<^verbatim>\<open>fcntl\<close>. Advisory locks are not represented as state:
  \<^verbatim>\<open>F_SETLK\<close> is granted, and \<^verbatim>\<open>F_SETLKW\<close> returns once the process recorded in the
  lockfile is dead, so that the model follows the execution in which that process dies.
  The commands are \<^verbatim>\<open>F_SETLK = 6\<close>, \<^verbatim>\<open>F_SETLKW = 7\<close> and \<^verbatim>\<open>F_UNLCK = 2\<close>.
\<close>

definition F_UNLCK :: int where [simp]: "F_UNLCK = 2"
definition F_SETLK :: int where [simp]: "F_SETLK = 6"
definition F_SETLKW :: int where [simp]: "F_SETLKW = 7"
definition ENOTSUP :: int where [simp]: "ENOTSUP = 95"

definition fcntl_lock :: "int \<Rightarrow> int \<Rightarrow> World \<Rightarrow> int \<times> World" where
  "fcntl_lock fd cmd w =
     (if cmd = F_SETLKW then
        (case read_ldata fd w of
           None \<Rightarrow> (0, w)
         | Some ld \<Rightarrow>
             (0, w\<lparr>os := (os w)\<lparr>live := removeAll (ld_pid ld) (live (os w))\<rparr>\<rparr>))
      else (0, w))"

definition lock :: "int \<Rightarrow> int \<Rightarrow> World \<Rightarrow> int \<times> World" where
  "lock fd cmd w =
     (if fd \<noteq> - 1 then
        (if cmd = F_SETLKW \<or> cmd = F_SETLK \<or> cmd = F_UNLCK then
           (let (result, w1) = fcntl_lock fd cmd w
            in if result = - 1 then (errno w1, w1) else (result, w1))
         else (ENOTSUP, w))
      else (EINVAL, w))"

definition waitlock :: "int \<Rightarrow> World \<Rightarrow> int \<times> World" where
  "waitlock fd w = lock fd F_SETLKW w"

definition unlock :: "int \<Rightarrow> World \<Rightarrow> int \<times> World" where
  "unlock fd w = lock fd F_UNLCK w"

text \<open>
  \<^verbatim>\<open>open_lockfile\<close>: the loop
  \<^verbatim>\<open>while ( ( tries++ < 5 ) && ( fd == -1 ) ) { fd = open(...); if ( fd == -1 ) usleep( 100000 ); }\<close>
  with its two variables as arguments.
\<close>

function open_lockfile_loop :: "string \<Rightarrow> nat \<Rightarrow> int \<Rightarrow> World \<Rightarrow> int \<times> World" where
  "open_lockfile_loop entry tries fd w =
     (if tries < 5 \<and> fd = - 1 then
        open_lockfile_loop entry (tries + 1) (fst (sys_open entry w))
          (if fst (sys_open entry w) = - 1 then sys_usleep 100000 (snd (sys_open entry w))
           else snd (sys_open entry w))
      else (fd, w))"
  by pat_completeness auto
termination
  by (relation "measure (\<lambda>(entry, tries, fd, w). 5 - tries)") auto

declare open_lockfile_loop.simps [simp del]

definition open_lockfile :: "string option \<Rightarrow> World \<Rightarrow> int \<times> World" where
  "open_lockfile name w =
     (case name of
        None \<Rightarrow> (- 1, w)
      | Some n \<Rightarrow>
          if fits 256 n then open_lockfile_loop (lockfile n) 0 (- 1) w
          else (- 1, buffer_overrun w))"

text \<open>
  \<^verbatim>\<open>create_lockfile\<close>: \<^verbatim>\<open>open\<close> with \<^verbatim>\<open>O_RDWR | O_CREAT\<close> (no truncation), then the header
  and the command line are written from offset 0.
\<close>

definition create_lockfile :: "ProcessPtr \<Rightarrow> World \<Rightarrow> int \<times> World" where
  "create_lockfile p w =
     (case deref w p of
        None \<Rightarrow> (- 1, w)
      | Some pr \<Rightarrow>
          (case id' pr of
             None \<Rightarrow> (- 1, w)
           | Some name \<Rightarrow>
               if \<not> fits 256 name then (- 1, buffer_overrun w) else
               (let entry = lockfile name;
                    fd = fresh_fd (fds w);
                    hdr = \<lparr>ld_pid = pid pr, ld_terminate = 0, ld_runcount = 1,
                           ld_starttime = sys_time w\<rparr>;
                    old = (case map_of (tmp (os w)) entry of None \<Rightarrow> [] | Some f \<Rightarrow> trailer f);
                    new = (case exec pr of None \<Rightarrow> old
                           | Some e \<Rightarrow> e @ drop (length e) old)
                in (fd, log_event (Opened entry fd)
                      (w\<lparr>fds := (fd, entry) # fds w,
                         os := (os w)\<lparr>tmp := AList.update entry
                           \<lparr>ldata = hdr, trailer = new\<rparr> (tmp (os w))\<rparr>\<rparr>)))))"

definition makelock :: "ProcessPtr \<Rightarrow> World \<Rightarrow> int \<times> World" where
  "makelock p w =
     (case deref w p of
        None \<Rightarrow> (EINVAL, w)
      | Some pr \<Rightarrow>
          (let (fd, w1) = open_lockfile (id' pr) w;
               (fd2, rc, w2) =
                 (if fd = - 1 then
                    (let (fd', w') = create_lockfile p w1 in (fd', EOK, w'))
                  else
                    (case read_ldata fd w1 of
                       None \<Rightarrow> (fd, EOK, w1)
                     | Some ld \<Rightarrow>
                         (let (ok, w') = pwrite_ldata fd
                                (\<lambda>_. ld\<lparr>ld_runcount := ld_runcount ld + 1, ld_pid := pid pr,
                                        ld_starttime := sys_time w1\<rparr>) w1
                          in (fd, if ok then EOK else errno w', w'))))
           in if rc = EOK then lock fd2 F_SETLK w2 else (rc, w2)))"

text \<open>
  \<^verbatim>\<open>get_pid_from_lockfile\<close>. The local \<^verbatim>\<open>ldata\<close> has no initialiser: when the file cannot
  be opened, the comparisons of \<^verbatim>\<open>ldata.terminate\<close> read the indeterminate value
  \<open>garbage\<close>. The result of \<^verbatim>\<open>read\<close> is not checked.
\<close>

definition get_pid_from_lockfile :: "string option \<Rightarrow> World \<Rightarrow> int \<times> World" where
  "get_pid_from_lockfile name w =
     (case name of
        None \<Rightarrow> (0, w)
      | Some n \<Rightarrow>
          if \<not> fits 256 n then (0, buffer_overrun w) else
          (let (fd, w1) = sys_open (lockfile n) w;
               ld = (if fd \<noteq> - 1 then
                       (case read_ldata fd w1 of None \<Rightarrow> garbage w1 | Some l \<Rightarrow> l)
                     else garbage w1);
               pid0 = (if fd \<noteq> - 1 then ld_pid ld else 0);
               w2 = (if fd \<noteq> - 1 then sys_close fd (w1\<lparr>garbage := ld\<rparr>) else w1);
               pid1 = (if ld_terminate ld = 0xDEADBEEF then - 1 else pid0);
               pid2 = (if ld_terminate ld = 0xDEAFBABE then - 2 else pid1)
           in if pid2 > 0 then
                (let (r, w3) = sys_kill pid2 0 w2
                 in if r = - 1 then (if errno w3 = ESRCH then (0, w3) else (pid2, w3))
                    else (pid2, w3))
              else (pid2, w2)))"

definition remove_lockfile :: "string option \<Rightarrow> World \<Rightarrow> int \<times> World" where
  "remove_lockfile name w =
     (case name of
        None \<Rightarrow> (EINVAL, w)
      | Some n \<Rightarrow>
          if \<not> fits 64 n then (EINVAL, buffer_overrun w) else
          (let (r, w1) = sys_unlink (lockfile n) w
           in if r = - 1 then (errno w1, w1) else (EOK, w1)))"

definition ResetStartTime :: "int \<Rightarrow> World \<Rightarrow> int \<times> World" where
  "ResetStartTime fd w =
     (if fd \<noteq> - 1 then
        (let (ok, w1) = pwrite_ldata fd (\<lambda>l. l\<lparr>ld_starttime := sys_time w\<rparr>) w
         in if ok then (EOK, w1) else (errno w1, w1))
      else (EINVAL, w))"

subsection \<open>Control commands\<close>

definition start :: "string option \<Rightarrow> World \<Rightarrow> int \<times> World" where
  "start name w =
     (case name of
        None \<Rightarrow> (EINVAL, w)
      | Some n \<Rightarrow>
          (let (fd, w1) = open_lockfile name w
           in if fd \<noteq> - 1 then
                (let (ok, w2) = pwrite_ldata fd (\<lambda>l. l\<lparr>ld_terminate := 0\<rparr>) w1
                 in (if ok then EOK else errno w2, sys_close fd w2))
              else (errno w1, w1)))"

definition restart :: "string option \<Rightarrow> World \<Rightarrow> int \<times> World" where
  "restart name w =
     (case name of
        None \<Rightarrow> (EINVAL, w)
      | Some n \<Rightarrow>
          (let (fd, w1) = open_lockfile name w
           in if fd \<noteq> - 1 then
                (let ld = (case read_ldata fd w1 of None \<Rightarrow> garbage w1 | Some l \<Rightarrow> l);
                     w2 = sys_close fd w1;
                     (result, w3) = sys_kill (ld_pid ld) SIGKILL w2
                 in (if result \<noteq> EOK then errno w3 else result, w3))
              else (errno w1, w1)))"

definition terminate_command :: "string option \<Rightarrow> 32 word \<Rightarrow> World \<Rightarrow> int \<times> World" where
  "terminate_command name cmd w =
     (case name of
        None \<Rightarrow> (EINVAL, w)
      | Some n \<Rightarrow>
          (let (fd, w1) = open_lockfile name w
           in if fd \<noteq> - 1 then
                (let ld = (case read_ldata fd w1 of None \<Rightarrow> garbage w1 | Some l \<Rightarrow> l);
                     (rs, w2) = ResetStartTime fd w1;
                     (ok, w3) = pwrite_ldata fd (\<lambda>l. l\<lparr>ld_terminate := cmd\<rparr>) w2;
                     (result, w4) =
                       (if ok then
                          (let (r, w') = sys_kill (ld_pid ld) SIGKILL w3
                           in (if r \<noteq> EOK then errno w' else r, w'))
                        else (errno w3, w3))
                 in (result, sys_close fd w4))
              else (errno w1, w1)))"

definition terminate_and_stop_monitoring :: "string option \<Rightarrow> World \<Rightarrow> int \<times> World" where
  "terminate_and_stop_monitoring name w = terminate_command name 0xDEAFBABE w"



subsection \<open>Dependency lists\<close>

text \<open>
  \<^verbatim>\<open>AddChild\<close> and \<^verbatim>\<open>AddParent\<close> put a new node at the head of the list. A failing
  \<^verbatim>\<open>calloc\<close> (\<^verbatim>\<open>ENOMEM\<close>) is not modelled.
\<close>

definition AddChild :: "ProcessPtr \<Rightarrow> ProcessPtr \<Rightarrow> World \<Rightarrow> int \<times> World" where
  "AddChild pParent pChild w =
     (if deref w pParent \<noteq> None \<and> deref w pChild \<noteq> None then
        (if pParent \<noteq> pChild then
           (EOK, modify pParent (\<lambda>q. q\<lparr>pChildren := pChild # pChildren q\<rparr>) w)
         else (EINVAL, w))
      else (EINVAL, w))"

definition AddParent :: "ProcessPtr \<Rightarrow> ProcessPtr \<Rightarrow> World \<Rightarrow> int \<times> World" where
  "AddParent pChild pParent w =
     (if deref w pParent \<noteq> None \<and> deref w pChild \<noteq> None then
        (if pParent \<noteq> pChild then
           AddChild pParent pChild
             (modify pChild (\<lambda>q. q\<lparr>pParents := pParent # pParents q\<rparr>) w)
         else (EINVAL, w))
      else (EINVAL, w))"

subsection \<open>Start engine\<close>

text \<open>\<^verbatim>\<open>GetParentRuncount\<close>: the loop over \<^verbatim>\<open>pParents\<close> with its accumulator.\<close>

fun GetParentRuncount_loop :: "World \<Rightarrow> ProcessPtr list \<Rightarrow> 64 word \<Rightarrow> 64 word" where
  "GetParentRuncount_loop w [] rc = rc"
| "GetParentRuncount_loop w (pParent # pNode) rc =
     (case deref w pParent of
        None \<Rightarrow> GetParentRuncount_loop w pNode rc
      | Some parent \<Rightarrow>
          GetParentRuncount_loop w pNode (if runcount parent > rc then runcount parent else rc))"

definition GetParentRuncount :: "ProcessPtr \<Rightarrow> World \<Rightarrow> 64 word" where
  "GetParentRuncount p w =
     (case deref w p of
        None \<Rightarrow> 0
      | Some pr \<Rightarrow> GetParentRuncount_loop w (pParents pr) 0)"

text \<open>\<^verbatim>\<open>Runnable\<close>: the loop over \<^verbatim>\<open>pParents\<close> that leaves at the first parent not running.\<close>

fun Runnable_loop :: "World \<Rightarrow> ProcessPtr list \<Rightarrow> int" where
  "Runnable_loop w [] = EOK"
| "Runnable_loop w (pParent # pNode) =
     (case deref w pParent of
        None \<Rightarrow> Runnable_loop w pNode
      | Some parent \<Rightarrow>
          if state parent \<noteq> PROCSTATE_eRUNNING then EAGAIN else Runnable_loop w pNode)"

definition Runnable :: "ProcessPtr \<Rightarrow> World \<Rightarrow> int" where
  "Runnable p w =
     (case deref w p of
        None \<Rightarrow> EINVAL
      | Some pr \<Rightarrow> Runnable_loop w (pParents pr))"

definition InitProcess :: "ProcessPtr \<Rightarrow> World \<Rightarrow> int \<times> World" where
  "InitProcess p w =
     (case deref w p of
        None \<Rightarrow> (EINVAL, w)
      | Some pr \<Rightarrow>
          (let (result, w1) = pthread_create p w
           in (result,
               if result = EOK then modify p (\<lambda>q. q\<lparr>state := PROCSTATE_eSTARTED\<rparr>) w1
               else w1)))"

definition WaitProcess :: "ProcessPtr \<Rightarrow> World \<Rightarrow> World" where
  "WaitProcess p w =
     (case deref w p of
        None \<Rightarrow> w
      | Some pr \<Rightarrow>
          if wait pr > 0 then
            (let (pid0, w1) = get_pid_from_lockfile (id' pr) w
             in if pid0 = 0 then
                  (if monitored pr \<or> runcount pr < GetParentRuncount p w1 then
                     sys_sleep (wait pr) (modify p (\<lambda>q. q\<lparr>state := PROCSTATE_eWAITING\<rparr>) w1)
                   else w1)
                else w1)
          else w)"

definition Run :: "ProcessPtr \<Rightarrow> World \<Rightarrow> int \<times> World" where
  "Run p w =
     (case deref w p of
        None \<Rightarrow> (EINVAL, w)
      | Some pr \<Rightarrow>
          (let w1 = (if \<not> skip pr then WaitProcess p (snd (InitProcess p w)) else w)
           in (EOK, modify p (\<lambda>q. q\<lparr>state := PROCSTATE_eRUNNING\<rparr>) w1)))"

text \<open>
  \<^verbatim>\<open>RunProcesses\<close>. \<open>RunProcesses_sweep\<close> is the inner loop over the process list, with
  the flag \<^verbatim>\<open>running\<close>; \<open>RunProcesses_loop\<close> is the outer loop
  \<^verbatim>\<open>while( running == false )\<close>, which need not end: it takes fuel, one unit per sweep,
  and is \<open>None\<close> when the fuel is used up. The function returns \<^verbatim>\<open>result\<close>, which the
  source never assigns after its initialisation to \<^verbatim>\<open>EINVAL\<close>.
\<close>

fun RunProcesses_sweep :: "ProcessPtr list \<Rightarrow> bool \<Rightarrow> World \<Rightarrow> bool \<times> World" where
  "RunProcesses_sweep [] running w = (running, w)"
| "RunProcesses_sweep (pProcess # pProcessNode) running w =
     (if Runnable pProcess w = EOK then
        RunProcesses_sweep pProcessNode running (snd (Run pProcess w))
      else RunProcesses_sweep pProcessNode False w)"

fun RunProcesses_loop :: "nat \<Rightarrow> ProcessPtr list \<Rightarrow> World \<Rightarrow> World option" where
  "RunProcesses_loop 0 first w = None"
| "RunProcesses_loop (Suc fuel) first w =
     (let (running, w1) = RunProcesses_sweep first True w
      in if running then Some w1 else RunProcesses_loop fuel first w1)"

definition RunProcesses :: "nat \<Rightarrow> ProcmonState option \<Rightarrow> World \<Rightarrow> (int \<times> World) option" where
  "RunProcesses fuel st w =
     (case st of
        None \<Rightarrow> Some (EINVAL, w)
      | Some s \<Rightarrow> map_option (\<lambda>w'. (EINVAL, w')) (RunProcesses_loop fuel (pFirst s) w))"

subsection \<open>Dependent restart\<close>

definition RestartDependent :: "ProcessPtr \<Rightarrow> int \<Rightarrow> World \<Rightarrow> int \<times> World" where
  "RestartDependent p wt w =
     (case deref w p of
        None \<Rightarrow> (EINVAL, w)
      | Some pr \<Rightarrow>
          if restart_on_parent_death pr \<and> \<not> skip pr \<and> state pr \<noteq> PROCSTATE_eINIT then
            (let w1 = modify p (\<lambda>q. q\<lparr>restart_delay := wt\<rparr>) w
             in if monitored pr then restart (id' pr) w1 else InitProcess p w1)
          else (EOK, w))"

text \<open>
  \<^verbatim>\<open>RestartDependents\<close>: the loop over \<^verbatim>\<open>pChildren\<close>, with \<^verbatim>\<open>result\<close>; \<^verbatim>\<open>pProcess->wait\<close> is
  read in every round.
\<close>

fun RestartDependents_loop :: "ProcessPtr \<Rightarrow> ProcessPtr list \<Rightarrow> int \<Rightarrow> World \<Rightarrow> int \<times> World" where
  "RestartDependents_loop p [] result w = (result, w)"
| "RestartDependents_loop p (c # pProcessNode) result w =
     (let wt = (case deref w p of None \<Rightarrow> 0 | Some pr \<Rightarrow> wait pr);
          (rc, w1) = RestartDependent c wt w
      in RestartDependents_loop p pProcessNode (if rc \<noteq> EOK then EOK else result) w1)"

definition RestartDependents :: "ProcessPtr \<Rightarrow> World \<Rightarrow> int \<times> World" where
  "RestartDependents p w =
     (case deref w p of
        None \<Rightarrow> (EINVAL, w)
      | Some pr \<Rightarrow> RestartDependents_loop p (pChildren pr) EOK w)"

subsection \<open>Monitor thread\<close>

text \<open>
  \<^verbatim>\<open>Monitor\<close>. The model's \<^verbatim>\<open>fcntl\<close> does not report \<^verbatim>\<open>EDEADLK\<close>, so the polling round of
  the inner loop does not occur; the other two branches are kept.
\<close>

definition Monitor :: "string option \<Rightarrow> int \<Rightarrow> World \<Rightarrow> World" where
  "Monitor name fd w =
     (case name of
        None \<Rightarrow> w
      | Some n \<Rightarrow>
          (let (fd1, w1) = (if fd = - 1 then open_lockfile name w else (fd, w))
           in if fd1 \<noteq> - 1 then
                (let (rc, w2) = waitlock fd1 w1
                 in if rc = EOK then sys_close fd1 (snd (unlock fd1 w2)) else w2)
              else w1))"

text \<open>
  \<^verbatim>\<open>RunProcess\<close> runs in the forked child: for a monitored process it records its own
  pid and makes the lock, then \<^verbatim>\<open>execvp\<close> replaces the program. The child lives on as
  the command; a failing \<^verbatim>\<open>execvp\<close> is not modelled.
\<close>

definition RunProcess :: "ProcessPtr \<Rightarrow> int \<Rightarrow> World \<Rightarrow> World" where
  "RunProcess p child w =
     (case deref w p of
        None \<Rightarrow> w
      | Some pr \<Rightarrow>
          if monitored pr then snd (makelock p (modify p (\<lambda>q. q\<lparr>pid := child\<rparr>) w)) else w)"

text \<open>
  \<^verbatim>\<open>fork\<close>: the child gets the next process id and runs \<open>child\<close> on its own copy of the
  memory, with an empty trace; only what it does to the operating system is seen by
  the parent, to which the call returns the child's pid. The child calls \<^verbatim>\<open>setsid\<close>
  first, which makes it the leader of a group of its own. A failing \<^verbatim>\<open>fork\<close> is not
  modelled.
\<close>

definition sys_fork :: "(int \<Rightarrow> World \<Rightarrow> World) \<Rightarrow> World \<Rightarrow> int \<times> World" where
  "sys_fork child w =
     (let c = next_pid (os w);
          w1 = w\<lparr>os := (os w)\<lparr>live := c # live (os w), pgrp := (pgrp (os w))(c := c),
                          next_pid := c + 1\<rparr>\<rparr>;
          wc = child c (w1\<lparr>events := [], self := c\<rparr>)
      in (c, log_event (Forked c) (w1\<lparr>os := os wc\<rparr>)))"

text \<open>
  \<^verbatim>\<open>MonitorThread\<close>. \<open>MonitorThread_loop\<close> is the loop \<^verbatim>\<open>while ( run )\<close>, one unit of
  fuel per round, \<open>None\<close> when the fuel is used up. The branch \<^verbatim>\<open>pid == 0\<close> after
  \<^verbatim>\<open>fork\<close> is the child's: there the thread runs \<open>RunProcess\<close> and leaves the loop.
\<close>

fun MonitorThread_loop :: "nat \<Rightarrow> ProcessPtr \<Rightarrow> World \<Rightarrow> World option" where
  "MonitorThread_loop 0 p w = None"
| "MonitorThread_loop (Suc fuel) p w =
     (case deref w p of
        None \<Rightarrow> Some w
      | Some pr \<Rightarrow>
          (let (pid0, w1) = get_pid_from_lockfile (id' pr) w
           in if pid0 = - 2 then Some (snd (remove_lockfile (id' pr) w1))
              else if pid0 = - 1 then MonitorThread_loop fuel p (sys_sleep 1 w1)
              else
                (let (pid1, w2) =
                       (if pid0 = 0 then
                          (let wa = modify p (\<lambda>q. q\<lparr>runcount := runcount q + 1\<rparr>) w1;
                               wb = (if restart_delay pr \<noteq> 0
                                     then sys_sleep (restart_delay pr) wa else wa)
                           in sys_fork (RunProcess p) wb)
                        else (pid0, w1))
                 in if pid1 = 0 then Some (RunProcess p 0 w2)
                    else if monitored pr then
                      MonitorThread_loop fuel p
                        (sys_waitpid pid1
                          (Monitor (id' pr) (- 1)
                            (sys_usleep 500000 (snd (RestartDependents p w2)))))
                    else Some (snd (RestartDependents p (sys_waitpid pid1 w2))))))"

definition MonitorThread :: "nat \<Rightarrow> ProcessPtr \<Rightarrow> World \<Rightarrow> World option" where
  "MonitorThread fuel arg w =
     (case deref w arg of
        None \<Rightarrow> Some w
      | Some pr \<Rightarrow>
          (let run = (if \<not> monitored pr \<and> runcount pr \<ge> GetParentRuncount arg w
                      then False else True)
           in if run then MonitorThread_loop fuel arg w else Some w))"

subsection \<open>Shutdown\<close>

text \<open>
  \<^verbatim>\<open>ShutdownAllProcesses\<close>. \<open>ShutdownAllProcesses_loop\<close> is the \<^verbatim>\<open>readdir\<close> loop over the
  entries that \<^verbatim>\<open>/tmp\<close> holds when it is opened.
\<close>

fun ShutdownAllProcesses_loop :: "string list \<Rightarrow> int \<Rightarrow> World \<Rightarrow> int \<times> World" where
  "ShutdownAllProcesses_loop [] result w = (result, w)"
| "ShutdownAllProcesses_loop (d_name # entries) result w =
     (if take 8 d_name = ''procmon.'' then
        (let pName = drop 8 d_name
         in if take 7 pName \<noteq> ''procmon'' then
              (let (rc, w1) = terminate_and_stop_monitoring (Some pName) w
               in if rc \<noteq> EOK then
                    ShutdownAllProcesses_loop entries rc (snd (remove_lockfile (Some pName) w1))
                  else ShutdownAllProcesses_loop entries result w1)
            else ShutdownAllProcesses_loop entries result w)
      else ShutdownAllProcesses_loop entries result w)"

definition ShutdownAllProcesses :: "ProcmonState option \<Rightarrow> World \<Rightarrow> int \<times> World" where
  "ShutdownAllProcesses st w =
     (case st of
        None \<Rightarrow> (EINVAL, w)
      | Some s \<Rightarrow>
          (let (result, w1) = ShutdownAllProcesses_loop (map fst (tmp (os w))) EOK w;
               w2 = sys_sleep 1 w1;
               w3 = snd (terminate_and_stop_monitoring (Some ''procmon1'') w2);
               w4 = snd (terminate_and_stop_monitoring (Some ''procmon1'') w3);
               w5 = sys_sleep 1 w4;
               w6 = snd (remove_lockfile (Some ''procmon1'') w5);
               w7 = snd (remove_lockfile (Some ''procmon2'') w6)
           in (result, w7)))"

subsection \<open>Auxiliary notions for the statements\<close>

text \<open>
  \<open>Run_each ps\<close> calls \<open>Run\<close> on the descriptors of \<open>ps\<close>, one after the other, as a
  sweep of the start engine does on the descriptors it finds runnable. \<open>skipped w q\<close>
  says that \<open>q\<close> points to a descriptor with \<^verbatim>\<open>skip == true\<close>.
\<close>

definition Run_each :: "ProcessPtr list \<Rightarrow> World \<Rightarrow> World" where
  "Run_each ps w = fold (\<lambda>q v. snd (Run q v)) ps w"

definition skipped :: "World \<Rightarrow> ProcessPtr \<Rightarrow> bool" where
  "skipped w q = (case deref w q of None \<Rightarrow> False | Some qr \<Rightarrow> skip qr)"

subsection \<open>Example configurations\<close>

text \<open>
  A lockfile as \<open>create_lockfile\<close> writes it, with a given process id and control
  word; and a quiet host with given lockfiles and live processes, on which nothing
  happens while the caller sleeps.
\<close>

definition lock_record :: "int \<Rightarrow> 32 word \<Rightarrow> LockFile" where
  "lock_record p t =
     \<lparr>ldata = \<lparr>ld_pid = p, ld_terminate = t, ld_runcount = 1, ld_starttime = 1700000000\<rparr>,
      trailer = ''/bin/sleep 3600''\<rparr>"

definition host :: "(string \<times> LockFile) list \<Rightarrow> int list \<Rightarrow> World" where
  "host files pids =
     \<lparr>procs = [],
      os = \<lparr>tmp = files, live = pids, pgrp = (\<lambda>p. p), clock = 1700000100000000,
            next_pid = 5000\<rparr>,
      env = (\<lambda>s. s), fds = [], errno = 0, self = 9000,
      garbage = \<lparr>ld_pid = 0, ld_terminate = 0, ld_runcount = 0, ld_starttime = 0\<rparr>,
      overrun = False, thread_limit = 64, threads = [], events = []\<rparr>"


text \<open>
  The configuration \<^verbatim>\<open>B(monitored, depends=[A])\<close>, \<^verbatim>\<open>A(monitored)\<close>, in this order of
  declaration: cell 0 is \<^verbatim>\<open>B\<close>, cell 1 is \<^verbatim>\<open>A\<close>. \<open>declared\<close> is the heap when the two
  descriptors have been set up, \<open>child_first\<close> the heap when the dependency lists have
  been built, by \<open>AddParent\<close> for the one dependency.
\<close>

definition new_process :: "string \<Rightarrow> Process" where
  "new_process name =
     \<lparr>id' = Some name, state = PROCSTATE_eINIT, exec = Some ''/bin/sleep 3600'', wait = 0,
      restart_delay = 0, restart_on_parent_death = False, monitored = True, skip = False,
      pid = 0, runcount = 0, pParents = [], pChildren = []\<rparr>"

definition declared :: World where
  "declared = (host [] [])\<lparr>procs := [new_process ''B'', new_process ''A'']\<rparr>"

definition child_first :: World where
  "child_first =
     (host [] [])\<lparr>procs := [(new_process ''B'')\<lparr>pParents := [Some 1]\<rparr>,
                            (new_process ''A'')\<lparr>pChildren := [Some 0]\<rparr>]\<rparr>"

definition child_first_state :: ProcmonState where
  "child_first_state = \<lparr>pFirst = [Some 0, Some 1]\<rparr>"

text \<open>
  Hosts with the lockfile of \<^verbatim>\<open>web\<close>: the process running; a record that stores the
  process id -1; the same record next to process 1 and a bystander, process 777. And a
  host with the lockfile of a process whose name has 243 characters.
\<close>

definition running_host :: World where
  "running_host = host [(''procmon.web'', lock_record 4242 0)] [4242]"


definition long_name :: string where
  "long_name = replicate 243 CHR ''a''"

definition long_name_host :: World where
  "long_name_host = host [(lockfile long_name, lock_record 4242 0)] [4242]"

definition negative_pid_host :: World where
  "negative_pid_host = host [(''procmon.web'', lock_record (- 1) 0)] []"

text \<open>
  A host with both supervisors (process ids 100 and 101) and one supervised process
  (process id 200), all running.
\<close>

definition supervised_host :: World where
  "supervised_host =
     host [(''procmon.web'', lock_record 200 0),
           (''procmon.procmon1'', lock_record 100 0),
           (''procmon.procmon2'', lock_record 101 0)] [100, 101, 200]"

text \<open>
  \<^verbatim>\<open>P\<close> with the monitored dependent \<^verbatim>\<open>C\<close>, to be restarted with its parent, which has
  no lockfile: \<open>restart\<close> fails on it.
\<close>

definition orphan_world :: World where
  "orphan_world =
     (host [] [])\<lparr>procs := [(new_process ''P'')\<lparr>pChildren := [Some 1]\<rparr>,
                            (new_process ''C'')\<lparr>pParents := [Some 0],
                               restart_on_parent_death := True,
                               state := PROCSTATE_eRUNNING\<rparr>]\<rparr>"

text \<open>
  \<^verbatim>\<open>P\<close>, started once, with the run-to-exit dependent \<^verbatim>\<open>T\<close> whose runcount is \<open>r\<close>.
\<close>

definition oneshot_world :: "64 word \<Rightarrow> World" where
  "oneshot_world r =
     (host [] [])\<lparr>procs := [(new_process ''P'')\<lparr>pChildren := [Some 1], runcount := 1\<rparr>,
                            (new_process ''T'')\<lparr>pParents := [Some 0], monitored := False,
                               runcount := r\<rparr>]\<rparr>"

text \<open>The skipped descriptor \<^verbatim>\<open>S\<close> with its dependent \<^verbatim>\<open>C\<close>, before the start engine runs.\<close>

definition skipped_parent :: World where
  "skipped_parent =
     (host [] [])\<lparr>procs := [(new_process ''S'')\<lparr>pChildren := [Some 1], skip := True\<rparr>,
                            (new_process ''C'')\<lparr>pParents := [Some 0]\<rparr>]\<rparr>"

section \<open>Properties\<close>

subsection \<open>Opening a lockfile\<close>

lemma fold_max_ge: "(a::int) \<le> fold max xs a"
proof (induction xs arbitrary: a)
  case Nil
  show ?case by simp
next
  case (Cons x xs)
  have "a \<le> max x a" by simp
  also have "max x a \<le> fold max xs (max x a)" by (rule Cons.IH)
  finally show ?case by simp
qed

lemma fresh_fd_ge: "3 \<le> fresh_fd t"
  using fold_max_ge [of 2 "map fst t"] by (simp add: fresh_fd_def)

lemma fresh_fd_neq [simp]: "fresh_fd t \<noteq> - 1"
  using fresh_fd_ge [of t] by simp

lemma sys_open_missing:
  "map_of (tmp (os w)) e = None \<Longrightarrow>
   sys_open e w = (- 1, log_event (Opened e (- 1)) (w\<lparr>errno := ENOENT\<rparr>))"
  by (simp add: sys_open_def)

lemma sys_open_present:
  "map_of (tmp (os w)) e = Some f \<Longrightarrow>
   sys_open e w = (fresh_fd (fds w),
      log_event (Opened e (fresh_fd (fds w))) (w\<lparr>fds := (fresh_fd (fds w), e) # fds w\<rparr>))"
  by (simp add: sys_open_def Let_def)






subsection \<open>Dependent restart\<close>

lemma RestartDependents_loop_EOK:
  "fst (RestartDependents_loop p cs EOK w) = EOK"
proof (induction cs arbitrary: w)
  case Nil
  show ?case by simp
next
  case (Cons c cs)
  show ?case by (simp add: Let_def split: prod.splits) (simp add: Cons.IH [unfolded EOK_def])
qed

text \<open>
  C10. For every process descriptor that is not NULL, \<open>RestartDependents\<close> returns
  \<open>EOK\<close>, whatever the restart of each dependent returns: the loop replaces a result
  other than \<open>EOK\<close> by \<open>EOK\<close>, so no error code of \<open>RestartDependent\<close> reaches the
  caller.
\<close>

theorem RestartDependents_returns_EOK:
  assumes "deref w p = Some pr"
  shows "fst (RestartDependents p w) = EOK"
  using assms RestartDependents_loop_EOK [of p "pChildren pr" w]
  by (simp add: RestartDependents_def)

subsection \<open>Parent run counts\<close>

lemma GetParentRuncount_loop_ge: "rc \<le> GetParentRuncount_loop w ps rc"
proof (induction ps arbitrary: rc)
  case Nil
  show ?case by simp
next
  case (Cons q ps)
  show ?case
  proof (cases "deref w q")
    case None
    then show ?thesis using Cons.IH [of rc] by simp
  next
    case (Some parent)
    have "rc \<le> (if runcount parent > rc then runcount parent else rc)"
      by (simp add: order.strict_implies_order)
    also have "\<dots> \<le> GetParentRuncount_loop w ps (if runcount parent > rc then runcount parent else rc)"
      by (rule Cons.IH)
    finally show ?thesis using Some by simp
  qed
qed

lemma GetParentRuncount_loop_less_iff:
  "x < GetParentRuncount_loop w ps rc \<longleftrightarrow>
   x < rc \<or> (\<exists>q\<in>set ps. \<exists>parent. deref w q = Some parent \<and> x < runcount parent)"
proof (induction ps arbitrary: rc)
  case Nil
  show ?case by simp
next
  case (Cons q ps)
  show ?case
  proof (cases "deref w q")
    case None
    then show ?thesis using Cons.IH [of rc] by auto
  next
    case (Some parent)
    then show ?thesis
      using Cons.IH [of "if runcount parent > rc then runcount parent else rc"]
      by (auto split: if_splits)
  qed
qed

lemma GetParentRuncount_less_iff:
  assumes "deref w p = Some pr"
  shows "x < GetParentRuncount p w \<longleftrightarrow>
         (\<exists>q\<in>set (pParents pr). \<exists>parent. deref w q = Some parent \<and> x < runcount parent)"
  using assms GetParentRuncount_loop_less_iff [of x w "pParents pr" 0]
  by (simp add: GetParentRuncount_def)

text \<open>
  C5. For a descriptor with \<open>monitored = False\<close>: when its runcount is at least the
  largest runcount of its parents, \<open>MonitorThread\<close> returns at once and leaves the
  world as it was (no system call is added to the trace: the lockfile is not polled and
  nothing is forked); otherwise it enters its loop. It enters the loop exactly when
  some parent's runcount exceeds its own.
\<close>

theorem MonitorThread_suppression:
  assumes "deref w p = Some pr" and "\<not> monitored pr"
  shows "(GetParentRuncount p w \<le> runcount pr \<longrightarrow> MonitorThread fuel p w = Some w) \<and>
         (runcount pr < GetParentRuncount p w \<longrightarrow>
            MonitorThread fuel p w = MonitorThread_loop fuel p w) \<and>
         (runcount pr < GetParentRuncount p w \<longleftrightarrow>
            (\<exists>q\<in>set (pParents pr). \<exists>parent. deref w q = Some parent \<and>
               runcount pr < runcount parent))"
proof (intro conjI impI)
  assume "GetParentRuncount p w \<le> runcount pr"
  then show "MonitorThread fuel p w = Some w"
    using assms by (simp add: MonitorThread_def)
next
  assume "runcount pr < GetParentRuncount p w"
  then have "\<not> GetParentRuncount p w \<le> runcount pr" by simp
  then show "MonitorThread fuel p w = MonitorThread_loop fuel p w"
    using assms by (simp add: MonitorThread_def)
next
  show "runcount pr < GetParentRuncount p w \<longleftrightarrow>
            (\<exists>q\<in>set (pParents pr). \<exists>parent. deref w q = Some parent \<and>
               runcount pr < runcount parent)"
    by (rule GetParentRuncount_less_iff [OF assms(1)])
qed

subsection \<open>Runnable and Run\<close>

lemma deref_modify:
  "deref (modify p f w) q =
     (if q = p then map_option f (deref w q) else deref w q)"
  by (cases p; cases q) (auto simp: deref_def modify_def nth_list_update)

lemma Runnable_loop_EOK_iff:
  "Runnable_loop w ps = EOK \<longleftrightarrow>
   (\<forall>q\<in>set ps. \<forall>parent. deref w q = Some parent \<longrightarrow> state parent = PROCSTATE_eRUNNING)"
  by (induction ps) (auto split: option.splits)

lemma Runnable_EOK_iff:
  assumes "deref w p = Some pr"
  shows "Runnable p w = EOK \<longleftrightarrow>
   (\<forall>q\<in>set (pParents pr). \<forall>parent. deref w q = Some parent \<longrightarrow> state parent = PROCSTATE_eRUNNING)"
  using assms by (simp add: Runnable_def Runnable_loop_EOK_iff [unfolded EOK_def])

lemma Run_skip_eq:
  assumes "deref w p = Some pr" and "skip pr"
  shows "Run p w = (EOK, modify p (\<lambda>q. q\<lparr>state := PROCSTATE_eRUNNING\<rparr>) w)"
  using assms by (simp add: Run_def)

lemma modify_other_fields:
  "os (modify p f w) = os w" "threads (modify p f w) = threads w"
  "events (modify p f w) = events w" "fds (modify p f w) = fds w"
  by (cases p; simp add: modify_def)+

lemma Run_each_skipped:
  assumes "\<forall>q\<in>set ps. skipped w q"
  shows "os (Run_each ps w) = os w \<and> threads (Run_each ps w) = threads w \<and>
         events (Run_each ps w) = events w \<and>
         (\<forall>q. deref (Run_each ps w) q =
            (if q \<in> set ps then map_option (\<lambda>r. r\<lparr>state := PROCSTATE_eRUNNING\<rparr>) (deref w q)
             else deref w q))"
  using assms
proof (induction ps arbitrary: w)
  case Nil
  show ?case by (simp add: Run_each_def)
next
  case (Cons a ps)
  from Cons.prems obtain ar where ar: "deref w a = Some ar" "skip ar"
    by (auto simp: skipped_def split: option.splits)
  let ?w1 = "modify a (\<lambda>q. q\<lparr>state := PROCSTATE_eRUNNING\<rparr>) w"
  have step: "Run_each (a # ps) w = Run_each ps ?w1"
    by (simp add: Run_each_def Run_skip_eq [OF ar])
  have sk: "\<forall>q\<in>set ps. skipped ?w1 q"
    using Cons.prems by (auto simp: skipped_def deref_modify split: option.splits)
  note IH = Cons.IH [OF sk]
  show ?case
  proof (intro conjI allI)
    show "os (Run_each (a # ps) w) = os w" using IH by (simp add: step modify_other_fields)
    show "threads (Run_each (a # ps) w) = threads w"
      using IH by (simp add: step modify_other_fields)
    show "events (Run_each (a # ps) w) = events w"
      using IH by (simp add: step modify_other_fields)
    fix q
    show "deref (Run_each (a # ps) w) q =
            (if q \<in> set (a # ps)
             then map_option (\<lambda>r. r\<lparr>state := PROCSTATE_eRUNNING\<rparr>) (deref w q)
             else deref w q)"
      using IH by (cases "deref w q") (auto simp: step deref_modify)
  qed
qed

text \<open>
  C9. For a descriptor with \<open>skip = True\<close>, \<open>Run\<close> returns \<open>EOK\<close> and changes nothing
  but the descriptor's state, which becomes \<open>RUNNING\<close>: no monitor thread is created,
  no system call is made (nothing is launched, nothing sleeps). Consequently a
  descriptor each of whose parents is skipped or already \<open>RUNNING\<close> is runnable once
  \<open>Run\<close> has been called on its skipped parents, although no thread was created and no
  process launched for them.
\<close>

theorem Run_skip:
  assumes "deref w p = Some pr" and "skip pr"
  shows "Run p w = (EOK, modify p (\<lambda>q. q\<lparr>state := PROCSTATE_eRUNNING\<rparr>) w) \<and>
         deref (snd (Run p w)) p = Some (pr\<lparr>state := PROCSTATE_eRUNNING\<rparr>) \<and>
         threads (snd (Run p w)) = threads w \<and>
         events (snd (Run p w)) = events w \<and>
         os (snd (Run p w)) = os w \<and>
         (\<forall>c cr. deref w c = Some cr \<and>
            (\<forall>q\<in>set (pParents cr). \<forall>qr. deref w q = Some qr \<longrightarrow>
                 skip qr \<or> state qr = PROCSTATE_eRUNNING) \<longrightarrow>
            Runnable c (Run_each (filter (skipped w) (pParents cr)) w) = EOK \<and>
            threads (Run_each (filter (skipped w) (pParents cr)) w) = threads w \<and>
            events (Run_each (filter (skipped w) (pParents cr)) w) = events w)"
proof (intro conjI allI impI)
  show "Run p w = (EOK, modify p (\<lambda>q. q\<lparr>state := PROCSTATE_eRUNNING\<rparr>) w)"
    by (rule Run_skip_eq [OF assms])
  then show "deref (snd (Run p w)) p = Some (pr\<lparr>state := PROCSTATE_eRUNNING\<rparr>)"
    using assms(1) by (simp add: deref_modify)
  show "threads (snd (Run p w)) = threads w" "events (snd (Run p w)) = events w"
    "os (snd (Run p w)) = os w"
    by (simp_all add: Run_skip_eq [OF assms] modify_other_fields)
next
  fix c cr
  assume a: "deref w c = Some cr \<and>
            (\<forall>q\<in>set (pParents cr). \<forall>qr. deref w q = Some qr \<longrightarrow>
                 skip qr \<or> state qr = PROCSTATE_eRUNNING)"
  let ?ps = "filter (skipped w) (pParents cr)"
  have sk: "\<forall>q\<in>set ?ps. skipped w q" by simp
  note R = Run_each_skipped [OF sk]
  from R show "threads (Run_each ?ps w) = threads w" "events (Run_each ?ps w) = events w"
    by simp_all
  from R have d: "\<And>q. deref (Run_each ?ps w) q =
            (if q \<in> set ?ps then map_option (\<lambda>r. r\<lparr>state := PROCSTATE_eRUNNING\<rparr>) (deref w q)
             else deref w q)" by blast
  obtain cr' where cr': "deref (Run_each ?ps w) c = Some cr'" "pParents cr' = pParents cr"
    using a d [of c] by (auto split: if_splits)
  have "\<forall>q\<in>set (pParents cr). \<forall>parent. deref (Run_each ?ps w) q = Some parent \<longrightarrow>
          state parent = PROCSTATE_eRUNNING"
  proof (intro ballI allI impI)
    fix q parent
    assume q: "q \<in> set (pParents cr)" and p: "deref (Run_each ?ps w) q = Some parent"
    show "state parent = PROCSTATE_eRUNNING"
    proof (cases "skipped w q")
      case True
      with q p d [of q] show ?thesis by auto
    next
      case False
      with q p d [of q] have dq: "deref w q = Some parent" by simp
      with False have "\<not> skip parent" by (simp add: skipped_def)
      with a q dq show ?thesis by blast
    qed
  qed
  then show "Runnable c (Run_each ?ps w) = EOK"
    using Runnable_EOK_iff [OF cr'(1)] cr'(2) by simp
qed

subsection \<open>The pid probe\<close>

lemma log_event_fields [simp]:
  "procs (log_event e w) = procs w" "os (log_event e w) = os w" "env (log_event e w) = env w"
  "fds (log_event e w) = fds w" "errno (log_event e w) = errno w"
  "garbage (log_event e w) = garbage w" "thread_limit (log_event e w) = thread_limit w"
  "self (log_event e w) = self w" "overrun (log_event e w) = overrun w"
  "threads (log_event e w) = threads w" "events (log_event e w) = events w @ [e]"
  by (simp_all add: log_event_def)

lemma read_ldata_opened:
  "map_of (tmp (os w)) e = Some f \<Longrightarrow>
   read_ldata fd (log_event ev (w\<lparr>fds := (fd, e) # fds w\<rparr>)) = Some (ldata f)"
  by (simp add: read_ldata_def log_event_def)


lemma kill_targets_pos:
  "0 < p \<Longrightarrow> kill_targets p w = [] \<longleftrightarrow> p \<notin> set (live (os w))"
  by (auto simp: kill_targets_def kill_match_def filter_empty_conv)




lemma get_pid_from_lockfile_present:
  assumes "map_of (tmp (os w)) (lockfile n) = Some f" and "length n \<le> 242"
  shows "fst (get_pid_from_lockfile (Some n) w) =
     (if ld_terminate (ldata f) = 0xDEAFBABE then - 2
      else if ld_terminate (ldata f) = 0xDEADBEEF then - 1
      else if ld_pid (ldata f) > 0 \<and> ld_pid (ldata f) \<notin> set (live (os w)) then 0
      else ld_pid (ldata f))"
proof -
  let ?fd = "fresh_fd (fds w)"
  let ?w1 = "log_event (Opened (lockfile n) ?fd) (w\<lparr>fds := (?fd, lockfile n) # fds w\<rparr>)"
  let ?w2 = "sys_close ?fd (?w1\<lparr>garbage := ldata f\<rparr>)"
  have o: "sys_open (lockfile n) w = (?fd, ?w1)"
    by (rule sys_open_present [OF assms(1)])
  have r: "read_ldata ?fd ?w1 = Some (ldata f)"
    by (rule read_ldata_opened [OF assms(1)])
  have l: "live (os ?w2) = live (os w)"
    by (simp add: sys_close_def)
  have k: "0 < p \<Longrightarrow> kill_targets p ?w2 = [] \<longleftrightarrow> p \<notin> set (live (os w))" for p
    by (simp add: kill_targets_pos l)
  have fit: "fits 256 n" using assms(2) by (simp add: fits_def)
  show ?thesis
    by (simp add: get_pid_from_lockfile_def fit o r Let_def sys_kill_def k split: prod.splits)
qed

text \<open>
  C4, amended. For every process name of at most 242 characters whose lockfile exists
  and stores a positive process id, \<open>get_pid_from_lockfile\<close> returns -1 (suspended) iff
  the \<open>terminate\<close> field is \<open>0xDEADBEEF\<close>, -2 (aborted) iff it is \<open>0xDEAFBABE\<close>, 0
  (absent) iff the field is neither of the two and the stored process id is not that of
  a live process, and the stored process id when the field is neither of the two and
  the process is live. Any other value of \<open>terminate\<close> is treated like 0.
\<close>

theorem get_pid_from_lockfile_status:
  assumes "map_of (tmp (os w)) (lockfile n) = Some f" and "length n \<le> 242"
    and "0 < ld_pid (ldata f)"
  shows "(fst (get_pid_from_lockfile (Some n) w) = - 1 \<longleftrightarrow>
            ld_terminate (ldata f) = 0xDEADBEEF) \<and>
         (fst (get_pid_from_lockfile (Some n) w) = - 2 \<longleftrightarrow>
            ld_terminate (ldata f) = 0xDEAFBABE) \<and>
         (fst (get_pid_from_lockfile (Some n) w) = 0 \<longleftrightarrow>
            ld_terminate (ldata f) \<noteq> 0xDEADBEEF \<and> ld_terminate (ldata f) \<noteq> 0xDEAFBABE \<and>
            ld_pid (ldata f) \<notin> set (live (os w))) \<and>
         (ld_terminate (ldata f) \<noteq> 0xDEADBEEF \<and> ld_terminate (ldata f) \<noteq> 0xDEAFBABE \<and>
            ld_pid (ldata f) \<in> set (live (os w)) \<longrightarrow>
            fst (get_pid_from_lockfile (Some n) w) = ld_pid (ldata f))"
  using assms(3) by (auto simp: get_pid_from_lockfile_present [OF assms(1,2)])

subsection \<open>Terminate\<close>





subsection \<open>Evaluation on the example configurations\<close>

lemmas world_defs = host_def lock_record_def new_process_def lockfile_def
lemmas sys_defs = sys_open_def sys_close_def sys_kill_def sys_unlink_def sys_usleep_def
  sys_sleep_def sys_time_def sys_waitpid_def sys_fork_def fresh_fd_def read_ldata_def
  pwrite_ldata_def pthread_create_def log_event_def deref_def modify_def Let_def
  fits_def buffer_overrun_def kill_targets_def kill_match_def



theorem get_pid_from_lockfile_status_witness:
  "map_of (tmp (os running_host)) (lockfile ''web'') = Some (lock_record 4242 0) \<and>
   length ''web'' \<le> 242 \<and>
   0 < ld_pid (ldata (lock_record 4242 0)) \<and>
   fst (get_pid_from_lockfile (Some ''web'') running_host) = 4242"
proof -
  have h1: "map_of (tmp (os running_host)) (lockfile ''web'') = Some (lock_record 4242 0)"
    by (simp add: running_host_def host_def lockfile_def)
  have n: "length ''web'' \<le> 242" by simp
  have h2: "0 < ld_pid (ldata (lock_record 4242 0))"
    by (simp add: lock_record_def)
  have "fst (get_pid_from_lockfile (Some ''web'') running_host) = 4242"
    using get_pid_from_lockfile_status [OF h1 n h2]
    by (simp add: running_host_def world_defs)
  with h1 n h2 show ?thesis by simp
qed

text \<open>
  C4 as stated fails on two lockfiles that exist and are readable. On
  \<open>negative_pid_host\<close> the control word is 0, not \<open>0xDEADBEEF\<close>, and the probe returns
  -1 (suspended): it returns the stored process id, which is -1. On \<open>long_name_host\<close>
  the name has 243 characters, and the probe writes past the end of its path buffer.
\<close>

theorem get_pid_from_lockfile_counterexample:
  "map_of (tmp (os negative_pid_host)) (lockfile ''web'') = Some (lock_record (- 1) 0) \<and>
   ld_terminate (ldata (lock_record (- 1) 0)) \<noteq> 0xDEADBEEF \<and>
   fst (get_pid_from_lockfile (Some ''web'') negative_pid_host) = - 1 \<and>
   map_of (tmp (os long_name_host)) (lockfile long_name) = Some (lock_record 4242 0) \<and>
   length long_name = 243 \<and>
   overrun (snd (get_pid_from_lockfile (Some long_name) long_name_host))"
proof -
  have a: "map_of (tmp (os negative_pid_host)) (lockfile ''web'') = Some (lock_record (- 1) 0)"
    "ld_terminate (ldata (lock_record (- 1) 0)) \<noteq> 0xDEADBEEF"
    "fst (get_pid_from_lockfile (Some ''web'') negative_pid_host) = - 1"
    by (simp_all add: negative_pid_host_def get_pid_from_lockfile_def world_defs sys_defs)
  have b: "map_of (tmp (os long_name_host)) (lockfile long_name) = Some (lock_record 4242 0)"
    by (simp add: long_name_host_def host_def)
  have c: "length long_name = 243"
    "overrun (snd (get_pid_from_lockfile (Some long_name) long_name_host))"
    by (simp_all add: long_name_def get_pid_from_lockfile_def fits_def buffer_overrun_def)
  from a b c show ?thesis by simp
qed



theorem RestartDependents_returns_EOK_witness:
  "deref orphan_world (Some 0) = Some ((new_process ''P'')\<lparr>pChildren := [Some 1]\<rparr>) \<and>
   fst (RestartDependent (Some 1) 0 orphan_world) = ENOENT \<and>
   fst (RestartDependents (Some 0) orphan_world) = EOK"
proof -
  have h: "deref orphan_world (Some 0) = Some ((new_process ''P'')\<lparr>pChildren := [Some 1]\<rparr>)"
    by (simp add: orphan_world_def deref_def)
  have r: "fst (RestartDependent (Some 1) 0 orphan_world) = ENOENT"
    by (simp add: orphan_world_def RestartDependent_def restart_def open_lockfile_def
        open_lockfile_loop.simps world_defs sys_defs split: prod.splits)
  from RestartDependents_returns_EOK [OF h] h r show ?thesis by simp
qed

theorem MonitorThread_suppression_witness:
  "deref (oneshot_world 1) (Some 1) =
     Some ((new_process ''T'')\<lparr>pParents := [Some 0], monitored := False, runcount := 1\<rparr>) \<and>
   GetParentRuncount (Some 1) (oneshot_world 1) = 1 \<and>
   MonitorThread 1 (Some 1) (oneshot_world 1) = Some (oneshot_world 1) \<and>
   GetParentRuncount (Some 1) (oneshot_world 0) = 1 \<and>
   map_option events (MonitorThread 1 (Some 1) (oneshot_world 0)) =
     Some [Opened ''procmon.T'' (- 1), Forked 5000, Waited 5000]"
proof -
  let ?T = "\<lambda>r. (new_process ''T'')\<lparr>pParents := [Some 0], monitored := False, runcount := r\<rparr>"
  have d: "deref (oneshot_world r) (Some 1) = Some (?T r)" for r
    by (simp add: oneshot_world_def deref_def)
  have m: "\<not> monitored (?T r)" for r by simp
  have g: "GetParentRuncount (Some 1) (oneshot_world r) = 1" for r
    by (simp add: GetParentRuncount_def oneshot_world_def deref_def new_process_def)
  have a: "MonitorThread 1 (Some 1) (oneshot_world 1) = Some (oneshot_world 1)"
    using MonitorThread_suppression [OF d m, of 1 1] g [of 1] by simp
  have b: "MonitorThread 1 (Some 1) (oneshot_world 0) = MonitorThread_loop 1 (Some 1) (oneshot_world 0)"
    using MonitorThread_suppression [OF d m, of 0 1] g [of 0] by simp
  have c: "map_option events (MonitorThread_loop 1 (Some 1) (oneshot_world 0)) =
     Some [Opened ''procmon.T'' (- 1), Forked 5000, Waited 5000]"
    by (simp add: oneshot_world_def get_pid_from_lockfile_def RunProcess_def
        RestartDependents_def world_defs sys_defs split: prod.splits)
  from d [of 1] g [of 1] a g [of 0] b c show ?thesis by simp
qed

theorem Run_skip_witness:
  "deref skipped_parent (Some 0) = Some ((new_process ''S'')\<lparr>pChildren := [Some 1], skip := True\<rparr>) \<and>
   Runnable (Some 1) skipped_parent = EAGAIN \<and>
   Runnable (Some 1) (snd (Run (Some 0) skipped_parent)) = EOK \<and>
   threads (snd (Run (Some 0) skipped_parent)) = [] \<and>
   events (snd (Run (Some 0) skipped_parent)) = [] \<and>
   Runnable (Some 1) (Run_each (filter (skipped skipped_parent) [Some 0]) skipped_parent) = EOK"
proof -
  let ?S = "(new_process ''S'')\<lparr>pChildren := [Some 1], skip := True\<rparr>"
  let ?C = "(new_process ''C'')\<lparr>pParents := [Some 0]\<rparr>"
  have d: "deref skipped_parent (Some 0) = Some ?S"
    by (simp add: skipped_parent_def deref_def)
  have s: "skip ?S" by simp
  have dc: "deref skipped_parent (Some 1) = Some ?C"
    by (simp add: skipped_parent_def deref_def)
  have pc: "pParents ?C = [Some 0]" by simp
  have r0: "Runnable (Some 1) skipped_parent = EAGAIN"
    by (simp add: Runnable_def skipped_parent_def deref_def new_process_def)
  note T = Run_skip [OF d s]
  from T have e: "Run (Some 0) skipped_parent =
      (EOK, modify (Some 0) (\<lambda>q. q\<lparr>state := PROCSTATE_eRUNNING\<rparr>) skipped_parent)" by blast
  have r1: "Runnable (Some 1) (snd (Run (Some 0) skipped_parent)) = EOK"
    unfolding e by (simp add: Runnable_def skipped_parent_def deref_def modify_def new_process_def)
  from T have t: "threads (snd (Run (Some 0) skipped_parent)) = threads skipped_parent"
    and v: "events (snd (Run (Some 0) skipped_parent)) = events skipped_parent" by blast+
  have pre: "\<forall>q\<in>set (pParents ?C). \<forall>qr. deref skipped_parent q = Some qr \<longrightarrow>
                 skip qr \<or> state qr = PROCSTATE_eRUNNING"
    using d by simp
  from T dc pre
  have "Runnable (Some 1) (Run_each (filter (skipped skipped_parent) (pParents ?C)) skipped_parent) = EOK"
    by blast
  then have r2: "Runnable (Some 1) (Run_each (filter (skipped skipped_parent) [Some 0]) skipped_parent) = EOK"
    by (simp only: pc)
  have z: "threads skipped_parent = []" "events skipped_parent = []"
    by (simp_all add: skipped_parent_def host_def)
  from d r0 r1 t v r2 z show ?thesis by simp
qed

subsection \<open>Rendering of the run time\<close>

lemma wrap32_id: "- 2147483648 \<le> x \<Longrightarrow> x < 2147483648 \<Longrightarrow> wrap32 x = x"
  by (simp add: wrap32_def)

lemma wrap64_id: "- 9223372036854775808 \<le> x \<Longrightarrow> x < 9223372036854775808 \<Longrightarrow> wrap64 x = x"
  by (simp add: wrap64_def)

lemma sdiv_nonneg: "0 \<le> (a::int) \<Longrightarrow> 0 < b \<Longrightarrow> a sdiv b = a div b"
  by (simp add: signed_divide_int_def sgn_if)

lemma GetProcessTime_secs:
  assumes "r < 60"
  shows "GetProcessTime r (Some b) len = (EOK, Some (snprintf b len (fmt_d r @ ''s'')))"
  using assms by (simp add: GetProcessTime_def)

lemma GetProcessTime_mins:
  assumes "60 \<le> r" and "r < 3600"
  shows "GetProcessTime r (Some b) len = (EOK, Some (snprintf b len (render_since r)))"
proof -
  have a: "0 \<le> r div 60" "r div 60 \<le> 59" using assms by auto
  have e1: "wrap32 (r sdiv 60) = r div 60" using assms a by (simp add: sdiv_nonneg wrap32_id)
  have e2: "wrap32 (r div 60 * 60) = r div 60 * 60" using a by (simp add: wrap32_id)
  have e3: "wrap64 (r - r div 60 * 60) = r mod 60"
    by (simp add: minus_div_mult_eq_mod wrap64_id)
  have e4: "wrap32 (r mod 60) = r mod 60" by (simp add: wrap32_id)
  have e5: "r mod 3600 = r" using assms by simp
  have c: "\<not> r < 60" "r < 3600" using assms by auto
  show ?thesis
    unfolding GetProcessTime_def render_since_def Let_def
    by (simp only: option.case c if_False if_True e5 e1 e2 e3 e4)
qed

lemma GetProcessTime_hours:
  assumes "3600 \<le> r" and "r < 86400"
  shows "GetProcessTime r (Some b) len = (EOK, Some (snprintf b len (render_since r)))"
proof -
  have a: "0 \<le> r div 3600" "r div 3600 \<le> 23" using assms by auto
  have e0: "r mod 86400 = r" using assms by simp
  have e1: "wrap32 (r sdiv 3600) = r div 3600" using assms a by (simp add: sdiv_nonneg wrap32_id)
  have e2: "wrap32 (r div 3600 * 3600) = r div 3600 * 3600" using a by (simp add: wrap32_id)
  have e3: "wrap64 (r - r div 3600 * 3600) = r mod 3600"
    by (simp add: minus_div_mult_eq_mod wrap64_id)
  have e4: "wrap32 (r mod 3600 sdiv 60) = r mod 3600 div 60"
    by (simp add: sdiv_nonneg wrap32_id)
  have e5: "wrap32 (r mod 3600 div 60 * 60) = r mod 3600 div 60 * 60"
    by (simp add: wrap32_id)
  have e6: "wrap64 (r mod 3600 - r mod 3600 div 60 * 60) = r mod 60"
    by (simp add: minus_div_mult_eq_mod mod_mod_cancel wrap64_id)
  have e7: "wrap32 (r mod 60) = r mod 60" by (simp add: wrap32_id)
  have c: "\<not> r < 60" "\<not> r < 3600" "r < 86400" using assms by auto
  show ?thesis
    unfolding GetProcessTime_def render_since_def Let_def
    by (simp only: option.case c if_False if_True e0 e1 e2 e3 e4 e5 e6 e7)
qed

lemma GetProcessTime_days:
  assumes "86400 \<le> r" and "r < 2147558400"
  shows "GetProcessTime r (Some b) len = (EOK, Some (snprintf b len (render_since r)))"
proof -
  have d: "0 \<le> r div 86400" "r div 86400 \<le> 24855" using assms by auto
  have e1: "wrap32 (r sdiv 86400) = r div 86400"
    using assms d by (simp add: sdiv_nonneg wrap32_id)
  have e2: "wrap32 (r div 86400 * 86400) = r div 86400 * 86400"
    using d by (simp add: wrap32_id)
  have e3: "wrap64 (r - r div 86400 * 86400) = r mod 86400"
    by (simp add: minus_div_mult_eq_mod wrap64_id)
  have e4: "wrap32 (r mod 86400 sdiv 3600) = r mod 86400 div 3600"
    by (simp add: sdiv_nonneg wrap32_id)
  have e5: "wrap32 (r mod 86400 div 3600 * 3600) = r mod 86400 div 3600 * 3600"
    by (simp add: wrap32_id)
  have e6: "wrap64 (r mod 86400 - r mod 86400 div 3600 * 3600) = r mod 3600"
    by (simp add: minus_div_mult_eq_mod mod_mod_cancel wrap64_id)
  have e7: "wrap32 (r mod 3600 sdiv 60) = r mod 3600 div 60"
    by (simp add: sdiv_nonneg wrap32_id)
  have e8: "wrap32 (r mod 3600 div 60 * 60) = r mod 3600 div 60 * 60"
    by (simp add: wrap32_id)
  have e9: "wrap64 (r mod 3600 - r mod 3600 div 60 * 60) = r mod 60"
    by (simp add: minus_div_mult_eq_mod mod_mod_cancel wrap64_id)
  have e10: "wrap32 (r mod 60) = r mod 60"
    by (simp add: wrap32_id)
  have c: "\<not> r < 60" "\<not> r < 3600" "\<not> r < 86400" using assms by auto
  show ?thesis
    unfolding GetProcessTime_def render_since_def Let_def
    by (simp only: option.case c if_False e1 e2 e3 e4 e5 e6 e7 e8 e9 e10)
qed

text \<open>
  Below 24856 days no product leaves the range of \<^verbatim>\<open>int\<close>, and \<open>GetProcessTime\<close>
  renders the euclidean decomposition.
\<close>

lemma GetProcessTime_in_range:
  assumes "0 \<le> r" and "r < 2147558400"
  shows "GetProcessTime r (Some b) len = (EOK, Some (snprintf b len (render_since r)))"
proof -
  consider "r < 60" | "60 \<le> r" "r < 3600" | "3600 \<le> r" "r < 86400" | "86400 \<le> r"
    by linarith
  then show ?thesis
  proof cases
    case 1
    have "render_since r = fmt_d r @ ''s''"
      using 1 assms by (simp add: render_since_def)
    with 1 show ?thesis by (simp add: GetProcessTime_secs)
  next
    case 2
    then show ?thesis by (rule GetProcessTime_mins)
  next
    case 3
    then show ?thesis by (rule GetProcessTime_hours)
  next
    case 4
    then show ?thesis using assms(2) by (rule GetProcessTime_days)
  qed
qed

lemma fmt_d_examples:
  "fmt_d 24856 = ''24856''" "fmt_02d 1193046 = ''1193046''" "fmt_02d 71582816 = ''71582816''"
  "fmt_02d 32 = ''32''" "fmt_02d 0 = ''00''"
  by (simp_all add: fmt_d_def fmt_02d_def dec_digits.simps digit_char_def)

text \<open>
  C8 fails on the code beyond that bound. At 24856 days (2147558400 seconds) the
  product \<^verbatim>\<open>days * 86400\<close> exceeds \<^verbatim>\<open>INT_MAX\<close>; with two's-complement wrap-around the
  function renders hours and minutes that are no decomposition of the run time, where
  the euclidean decomposition is 24856 days, 0 hours, 0 minutes and 0 seconds.
\<close>

theorem GetProcessTime_overflow:
  "GetProcessTime 2147558400 (Some []) 64 = (EOK, Some ''24856d1193046h71582816m32s'') \<and>
   render_since 2147558400 = ''24856d00h00m00s''"
proof
  have c: "\<not> (2147558400::int) < 60" "\<not> (2147558400::int) < 3600" "\<not> (2147558400::int) < 86400"
    by simp_all
  have e1: "wrap32 (2147558400 sdiv 86400) = 24856"
    by (simp add: wrap32_def signed_divide_int_def)
  have e2: "wrap32 (24856 * 86400) = - 2147408896" by (simp add: wrap32_def)
  have e3: "wrap64 (2147558400 - - 2147408896) = 4294967296" by (simp add: wrap64_def)
  have e4: "wrap32 (4294967296 sdiv 3600) = 1193046"
    by (simp add: wrap32_def signed_divide_int_def)
  have e5: "wrap32 (1193046 * 3600) = - 1696" by (simp add: wrap32_def)
  have e6: "wrap64 (4294967296 - - 1696) = 4294968992" by (simp add: wrap64_def)
  have e7: "wrap32 (4294968992 sdiv 60) = 71582816"
    by (simp add: wrap32_def signed_divide_int_def)
  have e8: "wrap32 (71582816 * 60) = 1664" by (simp add: wrap32_def)
  have e9: "wrap64 (4294968992 - 1664) = 4294967328" by (simp add: wrap64_def)
  have e10: "wrap32 4294967328 = 32" by (simp add: wrap32_def)
  have s: "snprintf [] 64 ''24856d1193046h71582816m32s'' = ''24856d1193046h71582816m32s''"
    by (simp add: snprintf_def)
  have "GetProcessTime 2147558400 (Some []) 64 =
        (EOK, Some (snprintf [] 64 (fmt_d 24856 @ ''d'' @ fmt_02d 1193046 @ ''h''
           @ fmt_02d 71582816 @ ''m'' @ fmt_02d 32 @ ''s'')))"
    unfolding GetProcessTime_def Let_def
    by (simp only: option.case c if_False e1 e2 e3 e4 e5 e6 e7 e8 e9 e10)
  also have "fmt_d 24856 @ ''d'' @ fmt_02d 1193046 @ ''h'' @ fmt_02d 71582816 @ ''m''
           @ fmt_02d 32 @ ''s'' = ''24856d1193046h71582816m32s''"
    by (simp add: fmt_d_examples)
  finally show "GetProcessTime 2147558400 (Some []) 64 =
      (EOK, Some ''24856d1193046h71582816m32s'')"
    by (simp only: s)
next
  have d: "(2147558400::int) div 86400 = 24856" "(2147558400::int) mod 86400 div 3600 = 0"
    "(2147558400::int) mod 3600 div 60 = 0" "(2147558400::int) mod 60 = 0" by simp_all
  have c: "\<not> (2147558400::int) < 60" "\<not> (2147558400::int) < 3600" "\<not> (2147558400::int) < 86400"
    by simp_all
  have "render_since 2147558400 =
        fmt_d 24856 @ ''d'' @ fmt_02d 0 @ ''h'' @ fmt_02d 0 @ ''m'' @ fmt_02d 0 @ ''s''"
    unfolding render_since_def Let_def by (simp only: d c if_False)
  then show "render_since 2147558400 = ''24856d00h00m00s''"
    by (simp add: fmt_d_examples)
qed

subsection \<open>The start engine on a child declared before its parent\<close>

lemmas engine_defs = RunProcesses_def Runnable_def Run_def InitProcess_def WaitProcess_def

text \<open>The example heap is the one that \<open>AddParent\<close> builds from the declared descriptors.\<close>

lemma child_first_built: "AddParent (Some 0) (Some 1) declared = (EOK, child_first)"
  by (simp add: AddParent_def AddChild_def declared_def child_first_def deref_def modify_def
      new_process_def host_def)

text \<open>
  \<open>Runnable\<close> looks at the parents only: whether the descriptor itself has been
  launched makes no difference to it.
\<close>

lemma Runnable_loop_modify_other:
  "p \<notin> set ps \<Longrightarrow> Runnable_loop (modify p f w) ps = Runnable_loop w ps"
  by (induction ps) (auto simp: deref_modify split: option.splits)

lemma Runnable_ignores_own_state:
  assumes "deref w p = Some pr" and "p \<notin> set (pParents pr)"
  shows "Runnable p (modify p (\<lambda>q. q\<lparr>state := s\<rparr>) w) = Runnable p w"
  using assms
  by (simp add: Runnable_def deref_modify Runnable_loop_modify_other)

text \<open>
  \<open>InitProcess\<close> creates a monitor thread whenever \<^verbatim>\<open>pthread_create\<close> succeeds, whether
  or not a thread with the same argument exists already.
\<close>

lemma InitProcess_no_guard:
  assumes "deref w p = Some pr" and "length (threads w) < thread_limit w"
  shows "fst (InitProcess p w) = EOK \<and> threads (snd (InitProcess p w)) = threads w @ [p]"
  using assms by (cases p) (simp_all add: InitProcess_def pthread_create_def modify_def)

text \<open>
  A round of the loop of \<open>MonitorThread\<close> for a monitored descriptor ends the thread
  only when the probe of the lockfile returns -2 (the abort command) or in the forked
  child; otherwise the thread goes on to the next round.
\<close>

lemma MonitorThread_loop_monitored_round:
  assumes "deref w p = Some pr" and "monitored pr"
    and "MonitorThread_loop (Suc fuel) p w = Some w'"
  shows "fst (get_pid_from_lockfile (id' pr) w) = - 2 \<or>
         (\<exists>w2. w' = RunProcess p 0 w2) \<or>
         (\<exists>v. MonitorThread_loop fuel p v = Some w')"
  using assms by (auto simp: Let_def split: prod.splits if_splits)

text \<open>
  C1 fails on the code. With \<^verbatim>\<open>B\<close> (which depends on \<^verbatim>\<open>A\<close>) declared before \<^verbatim>\<open>A\<close>, the
  first sweep finds \<^verbatim>\<open>B\<close> not runnable and launches \<^verbatim>\<open>A\<close>: \<^verbatim>\<open>A\<close> is \<open>RUNNING\<close> and its
  monitor thread exists. \<open>Runnable\<close> still returns \<open>EOK\<close> for \<^verbatim>\<open>A\<close>, since it looks at the
  parents only, and the second sweep launches \<^verbatim>\<open>B\<close> and then \<^verbatim>\<open>A\<close> again.
\<close>

theorem RunProcesses_starts_launched_again:
  "fst (RunProcesses_sweep (pFirst child_first_state) True child_first) = False \<and>
   map state (procs (snd (RunProcesses_sweep (pFirst child_first_state) True child_first))) =
     [PROCSTATE_eINIT, PROCSTATE_eRUNNING] \<and>
   threads (snd (RunProcesses_sweep (pFirst child_first_state) True child_first)) = [Some 1] \<and>
   Runnable (Some 1) (snd (RunProcesses_sweep (pFirst child_first_state) True child_first)) = EOK \<and>
   map_option (\<lambda>x. threads (snd x)) (RunProcesses 2 (Some child_first_state) child_first) =
     Some [Some 1, Some 0, Some 1]"
  by (simp add: child_first_def child_first_state_def engine_defs world_defs sys_defs
      numeral_2_eq_2)

text \<open>
  C2 fails on the code, by the same defect. When \<open>RunProcesses\<close> returns on that
  configuration, two monitor threads have been created for the monitored descriptor
  \<^verbatim>\<open>A\<close> (cell 1).
\<close>

theorem RunProcesses_second_monitor_thread:
  "map_option (\<lambda>x. (fst x, length (filter (\<lambda>t. t = Some 1) (threads (snd x))),
                    map monitored (procs (snd x)), map state (procs (snd x))))
     (RunProcesses 2 (Some child_first_state) child_first) =
   Some (EINVAL, 2, [True, True], [PROCSTATE_eRUNNING, PROCSTATE_eRUNNING])"
  by (simp add: child_first_def child_first_state_def engine_defs world_defs sys_defs
      numeral_2_eq_2)

subsection \<open>Shutdown of all processes\<close>

lemma ShutdownAllProcesses_steps:
  "snd (ShutdownAllProcesses (Some s) w) =
     snd (remove_lockfile (Some ''procmon2'')
       (snd (remove_lockfile (Some ''procmon1'')
         (sys_sleep 1
           (snd (terminate_and_stop_monitoring (Some ''procmon1'')
             (snd (terminate_and_stop_monitoring (Some ''procmon1'')
               (sys_sleep 1
                 (snd (ShutdownAllProcesses_loop (map fst (tmp (os w))) EOK w)))))))))))"
  by (simp add: ShutdownAllProcesses_def Let_def split: prod.splits)

text \<open>
  C3 fails on the code. With both supervisors and one supervised process running,
  \<open>ShutdownAllProcesses\<close> terminates \<^verbatim>\<open>web\<close>, then issues the terminate command for
  \<^verbatim>\<open>procmon1\<close> twice (the second \<^verbatim>\<open>kill\<close> finds no process) and never for \<^verbatim>\<open>procmon2\<close>:
  both supervisor lockfiles are unlinked, and the secondary supervisor, process 101,
  is still alive.
\<close>

theorem ShutdownAllProcesses_misses_procmon2:
  "events (snd (ShutdownAllProcesses (Some child_first_state) supervised_host)) =
     [Opened ''procmon.web'' 3, Killed 200 SIGKILL 0, Slept 1000000,
      Opened ''procmon.procmon1'' 3, Killed 100 SIGKILL 0,
      Opened ''procmon.procmon1'' 3, Killed 100 SIGKILL (- 1), Slept 1000000,
      Unlinked ''procmon.procmon1'' 0, Unlinked ''procmon.procmon2'' 0] \<and>
   live (os (snd (ShutdownAllProcesses (Some child_first_state) supervised_host))) = [101]"
  unfolding ShutdownAllProcesses_steps
  by (simp add: supervised_host_def terminate_and_stop_monitoring_def
      terminate_command_def ResetStartTime_def remove_lockfile_def open_lockfile_def
      open_lockfile_loop.simps world_defs sys_defs)

end
